theory Spec2Isabelle
  imports Main "HOL-Library.Word"
begin

unbundle bit_operations_syntax

section \<open>Go and mruby values\<close>

text \<open>
  A Go \<^verbatim>\<open>error\<close> is represented by its message; a nil-able error is a
  \<open>go_error option\<close>. A call either returns, panics (a Go run-time panic such as an
  index out of range), or leaves the behaviour defined by Go and by the mruby binding
  altogether (a C-level misuse of an mruby value).
\<close>

type_synonym go_error = string

datatype 'a outcome = Returns 'a | Panics string | Undefined string

text \<open>Indexing a Go slice: \<^verbatim>\<open>xs[i]\<close> panics when \<open>i\<close> is out of range.\<close>

definition index :: "'a list \<Rightarrow> nat \<Rightarrow> 'a option" where
  "index xs i = (if i < length xs then Some (xs ! i) else None)"

definition index_panic :: string where
  "index_panic = ''runtime error: index out of range''"

definition newline :: string where
  "newline = [CHR 0x0A]"

definition carriage_return :: string where
  "carriage_return = [CHR 0x0D]"

text \<open>
  Script values handed to the verbs by the evaluator. A Ruby hash is an association
  list in key-enumeration order; a block is a \<open>MProc\<close>. A nil-able
  \<^verbatim>\<open>*mruby.MrbValue\<close> or \<^verbatim>\<open>mruby.Value\<close> is a \<open>mrb_value option\<close>.
  A verb returns the Go pair (value, exception).
\<close>

datatype mrb_value =
    MNil
  | MString string
  | MFixnum int
  | MArray "mrb_value list"
  | MHash "(mrb_value \<times> mrb_value) list"
  | MProc nat
  | MException string

type_synonym ret = "mrb_value option \<times> mrb_value option"

text \<open>
  Modelled from the spec: \<^verbatim>\<open>createException\<close> is called by the sources but not
  defined in them; section 7 of the specification says a handler returns
  \<^verbatim>\<open>(nil, exception_value)\<close>, the exception carrying the error's message.
\<close>

definition createException :: "string \<Rightarrow> mrb_value" where
  "createException msg = MException msg"

text \<open>
  Functions of the Go library and of the mruby binding that the builder calls and whose
  results are left open: \<open>String\<close> is \<^verbatim>\<open>MrbValue.String\<close>, the canonical string
  rendering of a script value; \<open>Getenv\<close> is \<^verbatim>\<open>os.Getenv\<close>; \<open>Unmarshal\<close> is
  \<^verbatim>\<open>json.Unmarshal\<close> into a \<^verbatim>\<open>map[string]string\<close>, read at a key (the empty
  string for a missing key); \<open>FormatInt\<close> and \<open>Quote\<close> are the \<^verbatim>\<open>%d\<close> and
  \<^verbatim>\<open>%q\<close> verbs of \<^verbatim>\<open>fmt\<close>.
\<close>

record Lib =
  String :: "mrb_value \<Rightarrow> string"
  Getenv :: "string \<Rightarrow> string"
  Unmarshal :: "string \<Rightarrow> string \<Rightarrow> string"
  FormatInt :: "int \<Rightarrow> string"
  Quote :: "string \<Rightarrow> string"

text \<open>
  Modelled from the spec: \<^verbatim>\<open>extractStringArgs\<close> is called by the step wrapper
  but not defined in the sources; section 4.3 says each script value is converted to its
  canonical string form.
\<close>

definition extractStringArgs :: "Lib \<Rightarrow> mrb_value list \<Rightarrow> string list" where
  "extractStringArgs L args = map (String L) args"

section \<open>Library functions used by the step wrapper\<close>

text \<open>
  \<^verbatim>\<open>strings.Join\<close>: the empty string for no element, the element itself for one,
  otherwise the first element followed, for each further element, by the separator and
  the element (the loop over \<^verbatim>\<open>elems[1:]\<close> writing into a builder).
\<close>

definition strings_Join :: "string list \<Rightarrow> string \<Rightarrow> string" where
  "strings_Join elems sep =
     (case elems of
        [] \<Rightarrow> []
      | [e] \<Rightarrow> e
      | e # rest \<Rightarrow> foldl (\<lambda>acc s. acc @ sep @ s) e rest)"

text \<open>
  \<^verbatim>\<open>base64.StdEncoding.EncodeToString\<close>: the standard alphabet with \<open>=\<close> padding.
  Whole groups of three bytes give four characters; a remainder of two bytes gives three
  characters and one pad, a remainder of one byte two characters and two pads.
\<close>

definition encodeStd :: string where
  "encodeStd = ''ABCDEFGHIJKLMNOPQRSTUVWXYZabcdefghijklmnopqrstuvwxyz0123456789+/''"

definition enc :: "nat \<Rightarrow> char" where
  "enc i = encodeStd ! i"

fun EncodeToString :: "string \<Rightarrow> string" where
  "EncodeToString (a # b # c # rest) =
     (let val = push_bit 16 (of_char a :: nat) OR push_bit 8 (of_char b) OR of_char c
      in enc (drop_bit 18 val AND 0x3F) # enc (drop_bit 12 val AND 0x3F)
         # enc (drop_bit 6 val AND 0x3F) # enc (val AND 0x3F) # EncodeToString rest)"
| "EncodeToString [a, b] =
     (let val = push_bit 16 (of_char a :: nat) OR push_bit 8 (of_char b)
      in [enc (drop_bit 18 val AND 0x3F), enc (drop_bit 12 val AND 0x3F),
          enc (drop_bit 6 val AND 0x3F), CHR ''=''])"
| "EncodeToString [a] =
     (let val = push_bit 16 (of_char a :: nat)
      in [enc (drop_bit 18 val AND 0x3F), enc (drop_bit 12 val AND 0x3F),
          CHR ''='', CHR ''=''])"
| "EncodeToString [] = []"

section \<open>The builder core (builder.go)\<close>

subsection \<open>Data\<close>

text \<open>
  A channel of \<^verbatim>\<open>struct{}\<close> that is only ever closed: nil, open or closed.
  Closing a nil or a closed channel panics.
\<close>

datatype chan = ChanNil | ChanOpen | ChanClosed

definition close_chan :: "chan \<Rightarrow> string + chan" where
  "close_chan c =
     (case c of
        ChanNil \<Rightarrow> Inl ''close of nil channel''
      | ChanOpen \<Rightarrow> Inr ChanClosed
      | ChanClosed \<Rightarrow> Inl ''close of closed channel'')"

text \<open>
  The cancellation context as the wrapper observes it: whether \<^verbatim>\<open>Done()\<close> is
  ready, and what \<^verbatim>\<open>Err()\<close> returns.
\<close>

record go_context =
  ctxDone :: bool
  ctxErr :: "go_error option"

text \<open>
  \<^verbatim>\<open>global.Global\<close>, as far as the builder reads it. The logger is represented by
  the build steps it has been given, each a verb name and its rendered arguments.
\<close>

record Global =
  OmitFuncs :: "string list"
  TTY :: bool
  Logger :: "(string \<times> string) list"

record BuildConfig =
  Globals :: Global
  Context :: go_context
  Runner :: chan
  FileName :: string

record BuildResult =
  ResFileName :: string
  Value :: "mrb_value option"
  Err :: "go_error option"

text \<open>
  The builder. The evaluator state \<open>'m\<close> and the executor state \<open>'e\<close> are opaque.
  \<open>stdout\<close> is not a field of the Go struct: it is the text the builder has written to
  the process's standard output.
\<close>

record ('m, 'e) Builder =
  result :: BuildResult
  config :: BuildConfig
  mrb :: 'm
  exec :: 'e
  afterFunc :: "mrb_value option"
  stdout :: "string list"

text \<open>
  The executor interface, as far as the builder calls it. Each operation acts on the
  executor's own state. \<open>CheckCache\<close> is \<^verbatim>\<open>Image().CheckCache\<close>, \<open>ImageID\<close> is
  \<^verbatim>\<open>Image().ImageID\<close>, \<open>MakeImage\<close> is \<^verbatim>\<open>Layers().MakeImage(Config())\<close> (the
  image id it returns is discarded by every caller), and \<open>ConfigJSON\<close> is
  \<^verbatim>\<open>json.MarshalIndent\<close> of \<^verbatim>\<open>Config()\<close>.
\<close>

record 'e Executor =
  CheckCache :: "string \<Rightarrow> 'e \<Rightarrow> (bool \<times> go_error option) \<times> 'e"
  ImageID :: "'e \<Rightarrow> string"
  MakeImage :: "'e \<Rightarrow> go_error option \<times> 'e"
  ConfigJSON :: "'e \<Rightarrow> string"

text \<open>
  The evaluator interface. Evaluating a script, a compiled unit or a block calls back
  into the verbs, which are closures over the builder, so each operation acts on the
  whole builder. The values returned by \<^verbatim>\<open>LoadString\<close> and \<^verbatim>\<open>Yield\<close> are
  discarded by the builder and left out.
\<close>

record ('m, 'e) Mrb =
  LoadString :: "string \<Rightarrow> ('m, 'e) Builder \<Rightarrow> go_error option \<times> ('m, 'e) Builder"
  Yield :: "mrb_value option \<Rightarrow> ('m, 'e) Builder \<Rightarrow> go_error option \<times> ('m, 'e) Builder"
  RunWithContext :: "mrb_value option \<Rightarrow> int \<Rightarrow> ('m, 'e) Builder
     \<Rightarrow> (int \<times> mrb_value option \<times> go_error option) \<times> ('m, 'e) Builder"

text \<open>A verb handler of this revision: fingerprint, arguments, builder.\<close>

type_synonym ('m, 'e) verbFunc =
  "string \<Rightarrow> mrb_value list \<Rightarrow> ('m, 'e) Builder \<Rightarrow> ret \<times> ('m, 'e) Builder"

text \<open>
  The process-wide pull registry \<^verbatim>\<open>pulls\<close>, a map from image reference to a
  completion channel, and \<^verbatim>\<open>ResetPulls\<close>, which replaces it by an empty map.
\<close>

type_synonym pulls = "string \<rightharpoonup> chan"

definition ResetPulls :: "pulls \<Rightarrow> pulls" where
  "ResetPulls p = Map.empty"

subsection \<open>Operations\<close>

definition Builder_FileName :: "('m, 'e) Builder \<Rightarrow> string" where
  "Builder_FileName b = FileName (config b)"

definition Builder_ImageID :: "'e Executor \<Rightarrow> ('m, 'e) Builder \<Rightarrow> string" where
  "Builder_ImageID E b = ImageID E (exec b)"

text \<open>The cache key of a step (lines 129 and 130 of builder.go).\<close>

definition cacheKey :: "string \<Rightarrow> string list \<Rightarrow> string" where
  "cacheKey name strArgs = EncodeToString (strings_Join ([name] @ strArgs) '', '')"

text \<open>
  Logging the step and, when \<^verbatim>\<open>BOX_DEBUG\<close> is set, dumping the configuration
  (lines 132 to 137). Every element of \<open>stdout\<close> is one write.
\<close>

definition logStep ::
  "'e Executor \<Rightarrow> Lib \<Rightarrow> string \<Rightarrow> string list \<Rightarrow> ('m, 'e) Builder
     \<Rightarrow> ('m, 'e) Builder" where
  "logStep E L name strArgs b =
     (let g = Globals (config b);
          b1 = b\<lparr>config := (config b)\<lparr>Globals :=
                 g\<lparr>Logger := Logger g @ [(name, strings_Join strArgs '', '')]\<rparr>\<rparr>\<rparr>
      in if Getenv L ''BOX_DEBUG'' \<noteq> ''''
         then b1\<lparr>stdout := stdout b1 @ [ConfigJSON E (exec b1) @ newline]\<rparr>
         else b1)"

text \<open>
  The step wrapper around a verb handler \<open>vf\<close>, called by the evaluator with the
  arguments \<open>args\<close>.
\<close>

definition wrapVerbFunc ::
  "'e Executor \<Rightarrow> Lib \<Rightarrow> string \<Rightarrow> ('m, 'e) verbFunc
     \<Rightarrow> mrb_value list \<Rightarrow> ('m, 'e) Builder \<Rightarrow> ret \<times> ('m, 'e) Builder" where
  "wrapVerbFunc E L name vf args b =
     (if ctxDone (Context (config b)) then
        (case ctxErr (Context (config b)) of
           Some e \<Rightarrow> ((None, Some (createException e)), b)
         | None \<Rightarrow> ((None, None), b))
      else
        (let strArgs = extractStringArgs L args;
             key = cacheKey name strArgs;
             b1 = logStep E L name strArgs b
         in case CheckCache E key (exec b1) of
              ((cached, Some err), e') \<Rightarrow>
                ((None, Some (createException err)), b1\<lparr>exec := e'\<rparr>)
            | ((cached, None), e') \<Rightarrow>
                if \<not> cached \<or> name = ''debug''
                then vf key args (b1\<lparr>exec := e'\<rparr>)
                else ((None, None), b1\<lparr>exec := e'\<rparr>)))"

text \<open>
  The last step of a successful run: the result's value becomes the current image id.
\<close>

definition setImageValue :: "'e Executor \<Rightarrow> ('m, 'e) Builder \<Rightarrow> ('m, 'e) Builder" where
  "setImageValue E b =
     b\<lparr>result := (result b)\<lparr>Value := Some (MString (Builder_ImageID E b))\<rparr>\<rparr>"

definition setErr :: "go_error \<Rightarrow> ('m, 'e) Builder \<Rightarrow> ('m, 'e) Builder" where
  "setErr err b = b\<lparr>result := (result b)\<lparr>Err := Some err\<rparr>\<rparr>"

definition RunScript ::
  "('m, 'e) Mrb \<Rightarrow> 'e Executor \<Rightarrow> string \<Rightarrow> ('m, 'e) Builder
     \<Rightarrow> BuildResult \<times> ('m, 'e) Builder" where
  "RunScript M E script b0 =
     (let b = b0\<lparr>result := \<lparr>ResFileName = Builder_FileName b0, Value = None, Err = None\<rparr>\<rparr>
      in case LoadString M script b of
           (Some err, b1) \<Rightarrow> (let b2 = setErr err b1 in (result b2, b2))
         | (None, b1) \<Rightarrow>
             (case MakeImage E (exec b1) of
                (Some err, e2) \<Rightarrow> (let b2 = setErr err (b1\<lparr>exec := e2\<rparr>) in (result b2, b2))
              | (None, e2) \<Rightarrow>
                  (let b2 = b1\<lparr>exec := e2\<rparr>
                   in case afterFunc b2 of
                        None \<Rightarrow> (let b4 = setImageValue E b2 in (result b4, b4))
                      | Some f \<Rightarrow>
                          (case Yield M (Some f) b2 of
                             (Some err, b3) \<Rightarrow> (let b4 = setErr err b3 in (result b4, b4))
                           | (None, b3) \<Rightarrow>
                               (let b4 = setImageValue E b3 in (result b4, b4))))))"

text \<open>
  \<^verbatim>\<open>Run\<close> reads the script file (\<open>readFile\<close> is \<^verbatim>\<open>ioutil.ReadFile\<close>) and
  runs it; the deferred \<^verbatim>\<open>close(b.config.Runner)\<close> is executed when the body has
  returned, on either path. The channel is identified with the field that holds it.
\<close>

definition Run ::
  "('m, 'e) Mrb \<Rightarrow> 'e Executor \<Rightarrow> (string \<Rightarrow> go_error + string) \<Rightarrow> ('m, 'e) Builder
     \<Rightarrow> BuildResult outcome \<times> ('m, 'e) Builder" where
  "Run M E readFile b =
     (let (res, b1) =
            (case readFile (FileName (config b)) of
               Inl err \<Rightarrow>
                 (\<lparr>ResFileName = Builder_FileName b, Value = None, Err = Some err\<rparr>, b)
             | Inr script \<Rightarrow> RunScript M E script b)
      in case close_chan (Runner (config b1)) of
           Inl p \<Rightarrow> (Panics p, b1)
         | Inr c \<Rightarrow> (Returns res, b1\<lparr>config := (config b1)\<lparr>Runner := c\<rparr>\<rparr>))"

definition RunCode ::
  "('m, 'e) Mrb \<Rightarrow> 'e Executor \<Rightarrow> mrb_value option \<Rightarrow> int \<Rightarrow> ('m, 'e) Builder
     \<Rightarrow> (BuildResult \<times> int) \<times> ('m, 'e) Builder" where
  "RunCode M E val stackKeep b0 =
     (case RunWithContext M val stackKeep b0 of
        ((keep, res, err), b) \<Rightarrow>
          (let b1 = b\<lparr>result := \<lparr>ResFileName = Builder_FileName b, Value = res, Err = err\<rparr>\<rparr>
           in if err \<noteq> None then ((result b1, keep), b1)
              else if res \<noteq> None then
                (let b2 = b1\<lparr>result :=
                            \<lparr>ResFileName = Builder_FileName b1, Value = res, Err = None\<rparr>\<rparr>
                 in ((result b2, keep), b2))
              else
                (case MakeImage E (exec b1) of
                   (Some e, e2) \<Rightarrow>
                     (let b2 = b1\<lparr>exec := e2\<rparr>;
                          b3 = b2\<lparr>result := (result b2)\<lparr>Value := None, Err := Some e\<rparr>\<rparr>
                      in ((result b3, keep), b3))
                 | (None, e2) \<Rightarrow>
                     (let b2 = b1\<lparr>exec := e2\<rparr>
                      in case Yield M (afterFunc b2) b2 of
                           (Some e, b3) \<Rightarrow> (let b4 = setErr e b3 in ((result b4, keep), b4))
                         | (None, b3) \<Rightarrow>
                             (let b4 = setImageValue E b3;
                                  b5 = b4\<lparr>result := (result b4)\<lparr>Err := None\<rparr>\<rparr>
                              in ((result b5, keep), b5))))))"

section \<open>The verbs (verbs.go)\<close>

subsection \<open>Data\<close>

text \<open>
  The verbs act on a builder whose struct declaration is not among the sources; its
  fields are those the verbs use: the image reference \<open>imageID\<close>, the directory
  override \<open>insideDir\<close>, the container configuration (field \<^verbatim>\<open>config\<close>, here
  \<open>vconfig\<close>), the recorded \<open>entrypoint\<close> and \<open>cmd\<close>, and the container-runtime client
  (opaque state \<open>'c\<close>). \<open>vstdout\<close> is the text written to standard output, one element
  per write. Slices are values: a nil slice and an empty one are both \<open>[]\<close>.
\<close>

record Config =
  Entrypoint :: "string list"
  Cmd :: "string list"
  Env :: "string list"
  User :: string
  WorkingDir :: string
  Tty :: bool
  AttachStdout :: bool
  AttachStderr :: bool

record 'c VerbBuilder =
  imageID :: string
  insideDir :: string
  vconfig :: Config
  entrypoint :: "string list"
  cmd :: "string list"
  client :: 'c
  vstdout :: "string list"

text \<open>
  A stream handed out by the client: its content, and how reading ends once the content
  is used up (\<^verbatim>\<open>io.EOF\<close> or another error). The content is finite.
\<close>

datatype io_error = EOF | IOError go_error

record reader =
  rdData :: string
  rdEnd :: io_error

text \<open>The operations of the container-runtime client that the verbs call.\<close>

record 'c Client =
  ImagePull :: "string \<Rightarrow> 'c \<Rightarrow> (reader \<times> go_error option) \<times> 'c"
  ContainerAttach :: "string \<Rightarrow> 'c \<Rightarrow> (reader \<times> go_error option) \<times> 'c"
  ContainerStart :: "string \<Rightarrow> 'c \<Rightarrow> go_error option \<times> 'c"
  ContainerWait :: "string \<Rightarrow> 'c \<Rightarrow> (int \<times> go_error option) \<times> 'c"

text \<open>
  A run-hook takes the builder and a container id. \<^verbatim>\<open>b.commit\<close> is called by the
  verbs but not defined in the sources: it is the parameter \<open>commit\<close> of the verbs that
  call it, taking the hook (or nil) and the builder. Evaluating a block,
  \<^verbatim>\<open>m.Yield(block, arg)\<close>, is the parameter \<open>yield\<close>; the block may call verbs, so it
  acts on the whole builder.
\<close>

type_synonym 'c hook = "'c VerbBuilder \<Rightarrow> string \<Rightarrow> go_error option \<times> 'c VerbBuilder"

type_synonym 'c commit = "'c hook option \<Rightarrow> 'c VerbBuilder \<Rightarrow> go_error option \<times> 'c VerbBuilder"


text \<open>
  The argument specifications of the mruby binding, and the jump table. The table maps a
  verb's name to its function (here its tag) and its specification.
\<close>

datatype ArgSpec = ArgsReq nat | ArgsAny | ArgsBlock | ArgsOr ArgSpec ArgSpec

datatype Func = Fcopy | Ffrom | Frun | FwithUser | Finside | Fenv | Fcmd | Fentrypoint

definition jumpTable :: "(string \<times> Func \<times> ArgSpec) list" where
  "jumpTable =
     [(''copy'', Fcopy, ArgsReq 2),
      (''from'', Ffrom, ArgsReq 1),
      (''run'', Frun, ArgsAny),
      (''with_user'', FwithUser, ArgsOr ArgsBlock (ArgsReq 1)),
      (''inside'', Finside, ArgsOr ArgsBlock (ArgsReq 1)),
      (''env'', Fenv, ArgsAny),
      (''cmd'', Fcmd, ArgsAny),
      (''entrypoint'', Fentrypoint, ArgsAny)]"

subsection \<open>Library functions used by the verbs\<close>

text \<open>
  \<^verbatim>\<open>bufio.Reader.ReadBytes\<close>: the content up to and including the first delimiter;
  without a delimiter, the rest of the content together with the error that ends the
  stream.
\<close>

definition ReadBytes :: "char \<Rightarrow> reader \<Rightarrow> (string \<times> io_error option) \<times> reader" where
  "ReadBytes delim r =
     (case dropWhile (\<lambda>c. c \<noteq> delim) (rdData r) of
        [] \<Rightarrow> ((rdData r, Some (rdEnd r)), r\<lparr>rdData := []\<rparr>)
      | d # rest \<Rightarrow>
          ((takeWhile (\<lambda>c. c \<noteq> delim) (rdData r) @ [d], None), r\<lparr>rdData := rest\<rparr>))"

text \<open>
  \<^verbatim>\<open>io.Copy(os.Stdout, r)\<close>: writes the content and returns nil at the end of the
  stream, or the error that ended it.
\<close>

definition io_Copy :: "reader \<Rightarrow> string list \<Rightarrow> go_error option \<times> string list" where
  "io_Copy r out =
     (case rdEnd r of
        EOF \<Rightarrow> (None, out @ [rdData r])
      | IOError e \<Rightarrow> (Some e, out @ [rdData r]))"

text \<open>
  The accessors of the mruby binding on a hash and on an array. \<^verbatim>\<open>Hash()\<close> is an
  unchecked conversion: on a value that is no hash, what follows is not defined.
\<close>

definition Hash :: "mrb_value \<Rightarrow> (mrb_value \<times> mrb_value) list option" where
  "Hash v = (case v of MHash kvs \<Rightarrow> Some kvs | _ \<Rightarrow> None)"

definition hash_Keys :: "(mrb_value \<times> mrb_value) list \<Rightarrow> mrb_value list \<times> go_error option" where
  "hash_Keys kvs = (map fst kvs, None)"

definition hash_Get ::
  "(mrb_value \<times> mrb_value) list \<Rightarrow> mrb_value \<Rightarrow> mrb_value \<times> go_error option" where
  "hash_Get kvs k = (case map_of kvs k of Some v \<Rightarrow> (v, None) | None \<Rightarrow> (MNil, None))"

definition array_Get :: "mrb_value list \<Rightarrow> nat \<Rightarrow> mrb_value \<times> go_error option" where
  "array_Get xs i = (if i < length xs then (xs ! i, None) else (MNil, None))"

subsection \<open>The verbs\<close>

definition verb_entrypoint :: "Lib \<Rightarrow> mrb_value list \<Rightarrow> 'c VerbBuilder \<Rightarrow> ret outcome \<times> 'c VerbBuilder" where
  "verb_entrypoint L args b =
     (let stringArgs = map (String L) args
      in (Returns (None, None),
          b\<lparr>entrypoint := stringArgs, vconfig := (vconfig b)\<lparr>Entrypoint := stringArgs\<rparr>\<rparr>))"

definition verb_cmd :: "Lib \<Rightarrow> mrb_value list \<Rightarrow> 'c VerbBuilder \<Rightarrow> ret outcome \<times> 'c VerbBuilder" where
  "verb_cmd L args b =
     (let stringArgs = map (String L) args
      in (Returns (None, None),
          b\<lparr>cmd := stringArgs, vconfig := (vconfig b)\<lparr>Cmd := stringArgs\<rparr>\<rparr>))"

text \<open>
  The loop of \<^verbatim>\<open>from\<close> over the pull's progress stream: each line is unpacked and
  printed; the end of the stream leaves the loop, any other error returns it.
\<close>

function pullProgress :: "Lib \<Rightarrow> reader \<Rightarrow> string list \<Rightarrow> go_error option \<times> string list" where
  "pullProgress L buf out =
     (case ReadBytes (CHR 0x0A) buf of
        ((line, Some EOF), buf') \<Rightarrow> (None, out)
      | ((line, Some (IOError e)), buf') \<Rightarrow> (Some e, out)
      | ((line, None), buf') \<Rightarrow>
          pullProgress L buf'
            (out @ [Unmarshal L line ''id'' @ '' '' @ Unmarshal L line ''status'' @ '' ''
                    @ Unmarshal L line ''progress'' @ carriage_return]))"
  by pat_completeness auto
termination
  apply (relation "measure (\<lambda>(L, buf, out). length (rdData buf))")
   apply simp
  apply (auto simp: ReadBytes_def split: list.splits)
  subgoal for buf d rest
    using length_dropWhile_le [of "\<lambda>c. c \<noteq> CHR 0x0A" "rdData buf"] by simp
  done

declare pullProgress.simps [simp del]

definition "from" :: "'c Client \<Rightarrow> Lib \<Rightarrow> mrb_value list \<Rightarrow> 'c VerbBuilder \<Rightarrow> ret outcome \<times> 'c VerbBuilder" where
  "from C L args b =
     (case index args 0 of
        None \<Rightarrow> (Panics index_panic, b)
      | Some a0 \<Rightarrow>
          (let b1 = b\<lparr>imageID := String L a0,
                      vconfig := (vconfig b)\<lparr>Tty := True, AttachStdout := True,
                                             AttachStderr := True\<rparr>\<rparr>
           in case ImagePull C (imageID b1) (client b1) of
                ((rd, Some err), c') \<Rightarrow>
                  (Returns (None, Some (createException err)), b1\<lparr>client := c'\<rparr>)
              | ((rd, None), c') \<Rightarrow>
                  (case pullProgress L rd (vstdout b1) of
                     (Some err, out) \<Rightarrow>
                       (Returns (None, Some (createException err)),
                        b1\<lparr>client := c', vstdout := out\<rparr>)
                   | (None, out) \<Rightarrow>
                       (Returns (Some a0, None), b1\<lparr>client := c', vstdout := out\<rparr>))))"

text \<open>The run-hook that \<^verbatim>\<open>run\<close> hands to the commit.\<close>

definition runHook :: "'c Client \<Rightarrow> Lib \<Rightarrow> 'c hook" where
  "runHook C L b cid =
     (case ContainerAttach C cid (client b) of
        ((cearesp, Some err), c1) \<Rightarrow>
          (Some (''Could not attach to container: '' @ err), b\<lparr>client := c1\<rparr>)
      | ((cearesp, None), c1) \<Rightarrow>
          (case ContainerStart C cid c1 of
             (Some err, c2) \<Rightarrow>
               (Some (''Could not start container: '' @ err), b\<lparr>client := c2\<rparr>)
           | (None, c2) \<Rightarrow>
               (let out1 = vstdout b @ [''------ BEGIN OUTPUT ------'' @ newline]
                in case io_Copy cearesp out1 of
                     (Some err, out2) \<Rightarrow> (Some err, b\<lparr>client := c2, vstdout := out2\<rparr>)
                   | (None, out2) \<Rightarrow>
                       (let out3 = out2 @ [''------ END OUTPUT ------'' @ newline]
                        in case ContainerWait C cid c2 of
                             ((stat, Some err), c3) \<Rightarrow>
                               (Some err, b\<lparr>client := c3, vstdout := out3\<rparr>)
                           | ((stat, None), c3) \<Rightarrow>
                               (if stat \<noteq> 0
                                then (Some (''Command exited with status '' @ FormatInt L stat
                                            @ '' for container '' @ Quote L cid),
                                      b\<lparr>client := c3, vstdout := out3\<rparr>)
                                else (None, b\<lparr>client := c3, vstdout := out3\<rparr>))))))"

text \<open>
  \<^verbatim>\<open>run\<close>. The deferred function restores the three fields after the commit has
  returned, with or without an error.
\<close>

definition run ::
  "'c Client \<Rightarrow> Lib \<Rightarrow> 'c commit \<Rightarrow> mrb_value list \<Rightarrow> 'c VerbBuilder
     \<Rightarrow> ret outcome \<times> 'c VerbBuilder" where
  "run C L commit args b =
     (if imageID b = '''' then
        (Returns (Some (MString ''`from` must precede any `run` statements''), None), b)
      else
        (let stringArgs = map (String L) args;
             entrypoint0 = Entrypoint (vconfig b);
             cmd0 = Cmd (vconfig b);
             wd0 = WorkingDir (vconfig b);
             b1 = b\<lparr>vconfig := (vconfig b)\<lparr>Entrypoint := [''/bin/sh'', ''-c''],
                                             Cmd := stringArgs\<rparr>\<rparr>;
             b2 = (if insideDir b1 \<noteq> ''''
                   then b1\<lparr>vconfig := (vconfig b1)\<lparr>WorkingDir := insideDir b1\<rparr>\<rparr>
                   else b1)
         in case commit (Some (runHook C L)) b2 of
              (err, b3) \<Rightarrow>
                (let b4 = b3\<lparr>vconfig := (vconfig b3)\<lparr>Entrypoint := entrypoint0, Cmd := cmd0,
                                                     WorkingDir := wd0\<rparr>\<rparr>
                 in case err of
                      Some e \<Rightarrow> (Returns (None, Some (createException e)), b4)
                    | None \<Rightarrow> (Returns (None, None), b4))))"



text \<open>
  The loop of \<^verbatim>\<open>env\<close> over the keys of the hash, by index; the entries appended
  before an error stay in the configuration.
\<close>

function envLoop ::
  "Lib \<Rightarrow> (mrb_value \<times> mrb_value) list \<Rightarrow> mrb_value list \<Rightarrow> nat \<Rightarrow> 'c VerbBuilder
     \<Rightarrow> go_error option \<times> 'c VerbBuilder" where
  "envLoop L hash keys i b =
     (if i < length keys then
        (case array_Get keys i of
           (key, Some err) \<Rightarrow> (Some err, b)
         | (key, None) \<Rightarrow>
             (case hash_Get hash key of
                (value, Some err) \<Rightarrow> (Some err, b)
              | (value, None) \<Rightarrow>
                  envLoop L hash keys (Suc i)
                    (b\<lparr>vconfig := (vconfig b)\<lparr>Env := Env (vconfig b)
                          @ [String L key @ ''='' @ String L value]\<rparr>\<rparr>)))
      else (None, b))"
  by pat_completeness auto
termination
  by (relation "measure (\<lambda>(L, hash, keys, i, b). length keys - i)") auto

declare envLoop.simps [simp del]

definition env ::
  "Lib \<Rightarrow> 'c commit \<Rightarrow> mrb_value list \<Rightarrow> 'c VerbBuilder \<Rightarrow> ret outcome \<times> 'c VerbBuilder" where
  "env L commit args b =
     (case index args 0 of
        None \<Rightarrow> (Panics index_panic, b)
      | Some a0 \<Rightarrow>
          (case Hash a0 of
             None \<Rightarrow> (Undefined ''hash access on a value that is no hash'', b)
           | Some hash \<Rightarrow>
               (case hash_Keys hash of
                  (keys, Some err) \<Rightarrow> (Returns (None, Some (createException err)), b)
                | (keys, None) \<Rightarrow>
                    (case envLoop L hash keys 0 b of
                       (Some err, b1) \<Rightarrow> (Returns (None, Some (createException err)), b1)
                     | (None, b1) \<Rightarrow>
                         (case commit None b1 of
                            (Some err, b2) \<Rightarrow>
                              (Returns (None, Some (createException err)), b2)
                          | (None, b2) \<Rightarrow> (Returns (None, None), b2))))))"

section \<open>The fingerprint in the specification's words\<close>

text \<open>
  Section 8 of the specification gives the fingerprint as
  \<^verbatim>\<open>base64(join(", ", [name, str a1, ..., str an]))\<close>. Joining puts the separator
  between consecutive elements.
\<close>

fun spec_join :: "string \<Rightarrow> string list \<Rightarrow> string" where
  "spec_join sep [] = []"
| "spec_join sep [x] = x"
| "spec_join sep (x # y # ys) = x @ sep @ spec_join sep (y # ys)"

text \<open>
  Standard base64, described on bits: the input is read as one stream of bits, each byte
  most significant bit first; the stream is cut into groups of six bits, the last group
  filled up with zero bits; each group, read as a number, selects a character of the
  alphabet; the output is padded with \<open>=\<close> to a multiple of four characters.
\<close>

definition bits_of_byte :: "char \<Rightarrow> bool list" where
  "bits_of_byte c = map (bit (of_char c :: nat)) [7, 6, 5, 4, 3, 2, 1, 0]"

definition number_of_bits :: "bool list \<Rightarrow> nat" where
  "number_of_bits bs = horner_sum of_bool 2 (rev bs)"

fun sextets :: "bool list \<Rightarrow> bool list list" where
  "sextets [] = []"
| "sextets (b # bs) = take 6 (b # bs @ replicate 5 False) # sextets (drop 5 bs)"

definition spec_base64 :: "string \<Rightarrow> string" where
  "spec_base64 s =
     (let cs = map (\<lambda>g. enc (number_of_bits g)) (sextets (concat (map bits_of_byte s)))
      in cs @ replicate ((4 - length cs mod 4) mod 4) (CHR ''=''))"

definition spec_fingerprint :: "Lib \<Rightarrow> string \<Rightarrow> mrb_value list \<Rightarrow> string" where
  "spec_fingerprint L name args = spec_base64 (spec_join '', '' (name # map (String L) args))"

section \<open>Assumptions on the evaluator and the specification's protocol\<close>

text \<open>
  The verbs that the evaluator calls back are not all among the sources. None of the
  sources assigns the builder's recorded result or its completion channel outside
  \<^verbatim>\<open>Run\<close>, \<^verbatim>\<open>RunScript\<close> and \<^verbatim>\<open>RunCode\<close>. An evaluator keeps the
  result when evaluating a script or a block leaves the recorded result as it is; it
  keeps the channel when none of its operations changes the completion channel.
\<close>

definition keeps_result :: "('m, 'e) Mrb \<Rightarrow> bool" where
  "keeps_result M \<longleftrightarrow>
     (\<forall>script b. result (snd (LoadString M script b)) = result b)
     \<and> (\<forall>f b. result (snd (Yield M f b)) = result b)"

definition keeps_Runner :: "('m, 'e) Mrb \<Rightarrow> bool" where
  "keeps_Runner M \<longleftrightarrow>
     (\<forall>script b. Runner (config (snd (LoadString M script b))) = Runner (config b))
     \<and> (\<forall>f b. Runner (config (snd (Yield M f b))) = Runner (config b))
     \<and> (\<forall>val keep b.
           Runner (config (snd (RunWithContext M val keep b))) = Runner (config b))"

text \<open>
  The post-evaluation protocol in the words of the specification (section 4.1): ask the
  layer manager to finalize the current configuration into an image; if an after hook
  has been registered, invoke it; set the value to the current image id; an error at any
  step aborts and is returned. The outcome is the pair of value and error.
\<close>

definition spec_post_evaluation ::
  "('m, 'e) Mrb \<Rightarrow> 'e Executor \<Rightarrow> ('m, 'e) Builder
     \<Rightarrow> (mrb_value option \<times> go_error option) \<times> ('m, 'e) Builder" where
  "spec_post_evaluation M E b =
     (case MakeImage E (exec b) of
        (Some err, e) \<Rightarrow> ((None, Some err), b\<lparr>exec := e\<rparr>)
      | (None, e) \<Rightarrow>
          (case afterFunc b of
             None \<Rightarrow> ((Some (MString (ImageID E e)), None), b\<lparr>exec := e\<rparr>)
           | Some f \<Rightarrow>
               (case Yield M (Some f) (b\<lparr>exec := e\<rparr>) of
                  (Some err, b') \<Rightarrow> ((None, Some err), b')
                | (None, b') \<Rightarrow> ((Some (MString (ImageID E (exec b'))), None), b'))))"

text \<open>The result record built from the outcome, stored in the builder and returned.\<close>

definition spec_result ::
  "string \<Rightarrow> (mrb_value option \<times> go_error option) \<times> ('m, 'e) Builder
     \<Rightarrow> BuildResult \<times> ('m, 'e) Builder" where
  "spec_result file p =
     (case p of ((v, e), b) \<Rightarrow>
        (\<lparr>ResFileName = file, Value = v, Err = e\<rparr>,
         b\<lparr>result := \<lparr>ResFileName = file, Value = v, Err = e\<rparr>\<rparr>))"

section \<open>Concrete collaborators for the examples\<close>

text \<open>
  A library whose rendering is the identity on strings, with \<^verbatim>\<open>BOX_DEBUG\<close> unset.
\<close>

definition demoLib :: Lib where
  "demoLib =
     \<lparr>String = (\<lambda>v. case v of MString s \<Rightarrow> s | _ \<Rightarrow> ''''),
      Getenv = (\<lambda>name. ''''),
      Unmarshal = (\<lambda>line k. ''''),
      FormatInt = (\<lambda>i. ''''),
      Quote = (\<lambda>s. s)\<rparr>"

text \<open>
  An executor whose state is the list of known fingerprints and the current image. A
  cache hit advances the image; finalizing yields the image \<open>final\<close>.
\<close>

definition demoExecutor :: "(string list \<times> string) Executor" where
  "demoExecutor =
     \<lparr>CheckCache = (\<lambda>key (known, img).
         if key \<in> set known then ((True, None), (known, ''cached''))
         else ((False, None), (known, img))),
      ImageID = (\<lambda>(known, img). img),
      MakeImage = (\<lambda>(known, img). (None, (known, ''final''))),
      ConfigJSON = (\<lambda>e. ''{}'')\<rparr>"

text \<open>
  An evaluator that runs every script without error, records each block it is asked to
  yield on standard output, and returns a compiled unit as its own value.
\<close>

definition demoMrb :: "(unit, string list \<times> string) Mrb" where
  "demoMrb =
     \<lparr>LoadString = (\<lambda>script b. (None, b)),
      Yield = (\<lambda>f b. (None, b\<lparr>stdout := stdout b @ [''after'']\<rparr>)),
      RunWithContext = (\<lambda>val keep b. ((keep, val, None), b))\<rparr>"

definition demoBuilder :: "(unit, string list \<times> string) Builder" where
  "demoBuilder =
     \<lparr>result = \<lparr>ResFileName = '''', Value = None, Err = None\<rparr>,
      config = \<lparr>Globals = \<lparr>OmitFuncs = [], TTY = False, Logger = []\<rparr>,
                Context = \<lparr>ctxDone = False, ctxErr = None\<rparr>,
                Runner = ChanOpen,
                FileName = ''box.rb''\<rparr>,
      mrb = (),
      exec = ([cacheKey ''run'' [''true'']], ''base''),
      afterFunc = None,
      stdout = []\<rparr>"

text \<open>A handler that returns the fingerprint it was given.\<close>

definition demoHandler :: "(unit, string list \<times> string) verbFunc" where
  "demoHandler key args b = ((Some (MString key), None), b)"

definition demoReadFile :: "string \<Rightarrow> go_error + string" where
  "demoReadFile name = (if name = ''box.rb'' then Inr ''from \"alpine\"'' else Inl ''no such file'')"

text \<open>
  A container runtime whose state is the log of the requests it has received. One
  client pulls every image, with one progress line; the other fails every pull.
\<close>

definition demoClient :: "string list Client" where
  "demoClient =
     \<lparr>ImagePull = (\<lambda>ref log.
         ((\<lparr>rdData = ''{}'' @ newline, rdEnd = EOF\<rparr>, None), log @ [''pull '' @ ref])),
      ContainerAttach = (\<lambda>cid log. ((\<lparr>rdData = [], rdEnd = EOF\<rparr>, None), log)),
      ContainerStart = (\<lambda>cid log. (None, log)),
      ContainerWait = (\<lambda>cid log. ((0, None), log))\<rparr>"

definition failingClient :: "string list Client" where
  "failingClient =
     demoClient\<lparr>ImagePull := (\<lambda>ref log.
        ((\<lparr>rdData = [], rdEnd = EOF\<rparr>, Some ''pull failed''), log @ [''pull '' @ ref]))\<rparr>"

text \<open>A runtime that accepts the pull and then breaks the progress stream.\<close>

definition brokenStreamClient :: "string list Client" where
  "brokenStreamClient =
     demoClient\<lparr>ImagePull := (\<lambda>ref log.
        ((\<lparr>rdData = [], rdEnd = IOError ''connection reset''\<rparr>, None),
         log @ [''pull '' @ ref]))\<rparr>"

text \<open>A commit that records itself in the runtime's log and fails on request.\<close>

definition demoCommit :: "bool \<Rightarrow> string list commit" where
  "demoCommit fails hook b =
     (if fails then Some ''commit failed'' else None,
      b\<lparr>client := client b @ [''commit''],
        vconfig := (vconfig b)\<lparr>Cmd := [], WorkingDir := ''/tmp''\<rparr>\<rparr>)"


definition demoVerbBuilder :: "string list VerbBuilder" where
  "demoVerbBuilder =
     \<lparr>imageID = ''busybox'',
      insideDir = '''',
      vconfig = \<lparr>Entrypoint = [''/init''], Cmd = [''serve''], Env = [], User = '''',
                 WorkingDir = ''/srv'', Tty = False, AttachStdout = False,
                 AttachStderr = False\<rparr>,
      entrypoint = [''/init''],
      cmd = [''serve''],
      client = [],
      vstdout = []\<rparr>"

section \<open>Properties of the step wrapper\<close>

lemma exec_logStep: "exec (logStep E L name strArgs b) = exec b"
  by (simp add: logStep_def Let_def)

text \<open>
  The library's \<^verbatim>\<open>strings.Join\<close> and \<^verbatim>\<open>EncodeToString\<close> compute the
  specification's join and the bit-level base64.
\<close>

lemma foldl_sep: "foldl (\<lambda>acc s. acc @ sep @ s) e rest = e @ concat (map (\<lambda>s. sep @ s) rest)"
  by (induction rest arbitrary: e) simp_all

lemma spec_join_Cons: "spec_join sep (x # xs) = x @ concat (map (\<lambda>s. sep @ s) xs)"
  by (induction xs arbitrary: x) simp_all

lemma strings_Join_spec: "strings_Join elems sep = spec_join sep elems"
proof (cases elems)
  case Nil
  then show ?thesis by (simp add: strings_Join_def)
next
  case (Cons e rest)
  then show ?thesis
    by (cases rest) (simp_all add: strings_Join_def foldl_sep spec_join_Cons)
qed

lemma bit_byte_high: "a < 256 \<Longrightarrow> 8 \<le> k \<Longrightarrow> \<not> bit (a :: nat) k"
proof -
  assume a: "a < 256" and k: "8 \<le> k"
  have "(2::nat) ^ 8 \<le> 2 ^ k" using k by (intro power_increasing) simp_all
  with a have "a < 2 ^ k" by simp
  then show ?thesis by (simp add: bit_iff_odd)
qed

lemma bit_group:
  fixes a b c :: nat
  assumes "a < 256" "b < 256" "c < 256"
  shows "bit (push_bit 16 a OR push_bit 8 b OR c) m =
           (if m < 8 then bit c m else if m < 16 then bit b (m - 8) else bit a (m - 16))"
  using assms bit_byte_high [of a "m - 16"] bit_byte_high [of b "m - 8"] bit_byte_high [of c m]
  by (auto simp: bit_or_iff bit_push_bit_iff_nat)

lemma sextet_of_bits:
  fixes v :: nat
  shows "number_of_bits [bit v (k + 5), bit v (k + 4), bit v (k + 3), bit v (k + 2),
           bit v (k + 1), bit v k] = drop_bit k v AND 0x3F"
proof -
  have m: "(0x3F :: nat) = mask 6" by (simp add: mask_eq_exp_minus_1)
  have u: "[0..<6] = [0, 1, 2, 3, 4, 5]" by (simp add: upt_rec)
  have "drop_bit k v AND 0x3F = take_bit 6 (drop_bit k v)"
    by (simp only: m take_bit_eq_mask)
  also have "\<dots> = horner_sum of_bool 2 (map (bit (drop_bit k v)) [0..<6])"
    by (simp only: horner_sum_bit_eq_take_bit)
  also have "\<dots> = number_of_bits [bit v (k + 5), bit v (k + 4), bit v (k + 3), bit v (k + 2),
           bit v (k + 1), bit v k]"
    by (simp only: u number_of_bits_def) (simp add: bit_drop_bit_eq add.commute)
  finally show ?thesis by simp
qed

lemma group_sextets:
  fixes a b c :: nat
  assumes "a < 256" "b < 256" "c < 256"
  shows "drop_bit 18 (push_bit 16 a OR push_bit 8 b OR c) AND 0x3F =
           number_of_bits [bit a 7, bit a 6, bit a 5, bit a 4, bit a 3, bit a 2]"
    and "drop_bit 12 (push_bit 16 a OR push_bit 8 b OR c) AND 0x3F =
           number_of_bits [bit a 1, bit a 0, bit b 7, bit b 6, bit b 5, bit b 4]"
    and "drop_bit 6 (push_bit 16 a OR push_bit 8 b OR c) AND 0x3F =
           number_of_bits [bit b 3, bit b 2, bit b 1, bit b 0, bit c 7, bit c 6]"
    and "(push_bit 16 a OR push_bit 8 b OR c) AND 0x3F =
           number_of_bits [bit c 5, bit c 4, bit c 3, bit c 2, bit c 1, bit c 0]"
proof -
  let ?v = "push_bit 16 a OR push_bit 8 b OR c"
  show "drop_bit 18 ?v AND 0x3F =
           number_of_bits [bit a 7, bit a 6, bit a 5, bit a 4, bit a 3, bit a 2]"
    using sextet_of_bits [of ?v 18] by (simp add: bit_group [OF assms])
  show "drop_bit 12 ?v AND 0x3F =
           number_of_bits [bit a 1, bit a 0, bit b 7, bit b 6, bit b 5, bit b 4]"
    using sextet_of_bits [of ?v 12] by (simp add: bit_group [OF assms])
  show "drop_bit 6 ?v AND 0x3F =
           number_of_bits [bit b 3, bit b 2, bit b 1, bit b 0, bit c 7, bit c 6]"
    using sextet_of_bits [of ?v 6] by (simp add: bit_group [OF assms])
  show "?v AND 0x3F =
           number_of_bits [bit c 5, bit c 4, bit c 3, bit c 2, bit c 1, bit c 0]"
    using sextet_of_bits [of ?v 0] by (simp add: bit_group [OF assms] numeral_2_eq_2)
qed

lemma sextets_three:
  "sextets (concat (map bits_of_byte (a # b # c # rest))) =
     [bit (of_char a :: nat) 7, bit (of_char a :: nat) 6, bit (of_char a :: nat) 5,
      bit (of_char a :: nat) 4, bit (of_char a :: nat) 3, bit (of_char a :: nat) 2]
     # [bit (of_char a :: nat) 1, bit (of_char a :: nat) 0, bit (of_char b :: nat) 7,
        bit (of_char b :: nat) 6, bit (of_char b :: nat) 5, bit (of_char b :: nat) 4]
     # [bit (of_char b :: nat) 3, bit (of_char b :: nat) 2, bit (of_char b :: nat) 1,
        bit (of_char b :: nat) 0, bit (of_char c :: nat) 7, bit (of_char c :: nat) 6]
     # [bit (of_char c :: nat) 5, bit (of_char c :: nat) 4, bit (of_char c :: nat) 3,
        bit (of_char c :: nat) 2, bit (of_char c :: nat) 1, bit (of_char c :: nat) 0]
     # sextets (concat (map bits_of_byte rest))"
  by (simp add: bits_of_byte_def)

lemma sextets_two:
  "sextets (concat (map bits_of_byte [a, b])) =
     [[bit (of_char a :: nat) 7, bit (of_char a :: nat) 6, bit (of_char a :: nat) 5,
       bit (of_char a :: nat) 4, bit (of_char a :: nat) 3, bit (of_char a :: nat) 2],
      [bit (of_char a :: nat) 1, bit (of_char a :: nat) 0, bit (of_char b :: nat) 7,
       bit (of_char b :: nat) 6, bit (of_char b :: nat) 5, bit (of_char b :: nat) 4],
      [bit (of_char b :: nat) 3, bit (of_char b :: nat) 2, bit (of_char b :: nat) 1,
       bit (of_char b :: nat) 0, False, False]]"
  by (simp add: bits_of_byte_def numeral_eq_Suc)

lemma sextets_one:
  "sextets (concat (map bits_of_byte [a])) =
     [[bit (of_char a :: nat) 7, bit (of_char a :: nat) 6, bit (of_char a :: nat) 5,
       bit (of_char a :: nat) 4, bit (of_char a :: nat) 3, bit (of_char a :: nat) 2],
      [bit (of_char a :: nat) 1, bit (of_char a :: nat) 0, False, False, False, False]]"
  by (simp add: bits_of_byte_def numeral_eq_Suc)

lemma spec_base64_three:
  "spec_base64 (a # b # c # rest) =
     map (\<lambda>g. enc (number_of_bits g))
       (take 4 (sextets (concat (map bits_of_byte (a # b # c # rest)))))
     @ spec_base64 rest"
proof -
  have m: "Suc (Suc (Suc (Suc n))) mod 4 = n mod 4" for n :: nat
    by presburger
  show ?thesis
    unfolding spec_base64_def Let_def sextets_three
    by (simp add: m)
qed

lemma group_sextets_two:
  fixes a b :: nat
  assumes "a < 256" "b < 256"
  shows "drop_bit 18 (push_bit 16 a OR push_bit 8 b) AND 0x3F =
           number_of_bits [bit a 7, bit a 6, bit a 5, bit a 4, bit a 3, bit a 2]"
    and "drop_bit 12 (push_bit 16 a OR push_bit 8 b) AND 0x3F =
           number_of_bits [bit a 1, bit a 0, bit b 7, bit b 6, bit b 5, bit b 4]"
    and "drop_bit 6 (push_bit 16 a OR push_bit 8 b) AND 0x3F =
           number_of_bits [bit b 3, bit b 2, bit b 1, bit b 0, False, False]"
  using group_sextets [of a b 0] assms by simp_all

lemma group_sextets_one:
  fixes a :: nat
  assumes "a < 256"
  shows "drop_bit 18 (push_bit 16 a) AND 0x3F =
           number_of_bits [bit a 7, bit a 6, bit a 5, bit a 4, bit a 3, bit a 2]"
    and "drop_bit 12 (push_bit 16 a) AND 0x3F =
           number_of_bits [bit a 1, bit a 0, False, False, False, False]"
  using group_sextets [of a 0 0] assms by simp_all

lemma EncodeToString_spec: "EncodeToString s = spec_base64 s"
proof (induction s rule: EncodeToString.induct)
  case (1 a b c rest)
  have lt: "(of_char a :: nat) < 256" "(of_char b :: nat) < 256" "(of_char c :: nat) < 256"
    by simp_all
  show ?case
    apply (simp only: EncodeToString.simps Let_def group_sextets [OF lt] spec_base64_three
        sextets_three "1.IH")
    apply simp
    done
next
  case (2 a b)
  have lt: "(of_char a :: nat) < 256" "(of_char b :: nat) < 256"
    by simp_all
  show ?case
    apply (simp only: EncodeToString.simps Let_def group_sextets_two [OF lt] spec_base64_def
        sextets_two)
    apply simp
    done
next
  case (3 a)
  have lt: "(of_char a :: nat) < 256"
    by simp
  show ?case
    apply (simp only: EncodeToString.simps Let_def group_sextets_one [OF lt] spec_base64_def
        sextets_one)
    apply (simp add: numeral_2_eq_2)
    done
next
  case 4
  show ?case by (simp add: spec_base64_def)
qed

text \<open>The encoding on the test vectors of RFC 4648, section 10.\<close>

lemma EncodeToString_test_vectors:
  "EncodeToString ''f'' = ''Zg==''"
  "EncodeToString ''fo'' = ''Zm8=''"
  "EncodeToString ''foo'' = ''Zm9v''"
  "EncodeToString ''foob'' = ''Zm9vYg==''"
  "EncodeToString ''fooba'' = ''Zm9vYmE=''"
  "EncodeToString ''foobar'' = ''Zm9vYmFy''"
  by (simp_all add: enc_def encodeStd_def)

text \<open>
  C1: the cache key that the step wrapper computes from the verb's name and the
  arguments is the specification's fingerprint: the standard base64 encoding of the
  name and the rendered arguments joined by a comma and a space. It is a function of
  the name and the arguments alone. When the context is not done, the wrapper probes
  the cache with this fingerprint and hands this fingerprint to the handler.
\<close>

theorem wrapVerbFunc_fingerprint:
  "cacheKey name (extractStringArgs L args) = spec_fingerprint L name args
   \<and> (\<not> ctxDone (Context (config b)) \<longrightarrow>
        (\<exists>b1. exec b1 = exec b
           \<and> wrapVerbFunc E L name vf args b =
               (case CheckCache E (spec_fingerprint L name args) (exec b) of
                  ((cached, Some err), e') \<Rightarrow>
                    ((None, Some (createException err)), b1\<lparr>exec := e'\<rparr>)
                | ((cached, None), e') \<Rightarrow>
                    if \<not> cached \<or> name = ''debug''
                    then vf (spec_fingerprint L name args) args (b1\<lparr>exec := e'\<rparr>)
                    else ((None, None), b1\<lparr>exec := e'\<rparr>))))"
proof -
  have key: "cacheKey name (extractStringArgs L args) = spec_fingerprint L name args"
    by (simp add: cacheKey_def extractStringArgs_def spec_fingerprint_def strings_Join_spec
        EncodeToString_spec)
  have "\<exists>b1. exec b1 = exec b
           \<and> wrapVerbFunc E L name vf args b =
               (case CheckCache E (spec_fingerprint L name args) (exec b) of
                  ((cached, Some err), e') \<Rightarrow>
                    ((None, Some (createException err)), b1\<lparr>exec := e'\<rparr>)
                | ((cached, None), e') \<Rightarrow>
                    if \<not> cached \<or> name = ''debug''
                    then vf (spec_fingerprint L name args) args (b1\<lparr>exec := e'\<rparr>)
                    else ((None, None), b1\<lparr>exec := e'\<rparr>))"
    if "\<not> ctxDone (Context (config b))"
    using that
    by (intro exI [of _ "logStep E L name (extractStringArgs L args) b"])
      (auto simp: wrapVerbFunc_def Let_def exec_logStep key split: prod.splits option.splits)
  with key show ?thesis by blast
qed

theorem wrapVerbFunc_fingerprint_witness:
  "\<not> ctxDone (Context (config demoBuilder))
   \<and> spec_fingerprint demoLib ''run'' [MString ''true''] = ''cnVuLCB0cnVl''
   \<and> fst (wrapVerbFunc demoExecutor demoLib ''debug'' demoHandler [MString ''true'']
        (demoBuilder\<lparr>exec := ([], ''base'')\<rparr>))
      = (Some (MString ''ZGVidWcsIHRydWU=''), None)"
  using wrapVerbFunc_fingerprint [of "''run''" demoLib "[MString ''true'']" demoBuilder
      demoExecutor demoHandler]
  by (simp add: wrapVerbFunc_def logStep_def cacheKey_def extractStringArgs_def
      strings_Join_def demoLib_def demoBuilder_def demoExecutor_def demoHandler_def
      enc_def encodeStd_def Let_def)

text \<open>
  C2: when the context is not done and the cache probe for the step's fingerprint reports
  a hit without error, the wrapper returns \<^verbatim>\<open>(nil, nil)\<close> and leaves the builder as
  the probe left it, whatever the handler is, so the handler is not invoked; unless the
  verb's name is \<open>debug\<close>, in which case the handler runs. On a miss the handler is
  invoked with the fingerprint and the arguments.
\<close>

theorem wrapVerbFunc_cache_probe:
  assumes "\<not> ctxDone (Context (config b))"
    and "CheckCache E (cacheKey name (extractStringArgs L args)) (exec b) = ((cached, None), e')"
  shows "wrapVerbFunc E L name vf args b =
           (if cached \<and> name \<noteq> ''debug''
            then ((None, None), (logStep E L name (extractStringArgs L args) b)\<lparr>exec := e'\<rparr>)
            else vf (cacheKey name (extractStringArgs L args)) args
                   ((logStep E L name (extractStringArgs L args) b)\<lparr>exec := e'\<rparr>))"
  using assms by (simp add: wrapVerbFunc_def Let_def exec_logStep)

theorem wrapVerbFunc_cache_probe_witness:
  "\<not> ctxDone (Context (config demoBuilder))
   \<and> CheckCache demoExecutor (cacheKey ''run'' (extractStringArgs demoLib [MString ''true'']))
        (exec demoBuilder) = ((True, None), ([cacheKey ''run'' [''true'']], ''cached''))
   \<and> wrapVerbFunc demoExecutor demoLib ''run'' demoHandler [MString ''true''] demoBuilder =
       ((None, None),
        (logStep demoExecutor demoLib ''run'' [''true''] demoBuilder)
          \<lparr>exec := ([cacheKey ''run'' [''true'']], ''cached'')\<rparr>)"
  using wrapVerbFunc_cache_probe [of demoBuilder demoExecutor "''run''" demoLib
      "[MString ''true'']" True "([cacheKey ''run'' [''true'']], ''cached'')" demoHandler]
  by (simp add: demoBuilder_def demoExecutor_def demoLib_def extractStringArgs_def)

section \<open>Properties of the verbs\<close>

text \<open>
  C5: when the builder's image reference is empty, \<^verbatim>\<open>run\<close> returns the string
  \<^verbatim>\<open>`from` must precede any `run` statements\<close> as its value, with a nil exception,
  and leaves the builder unchanged whatever the commit function is: no commit is
  performed.
\<close>

theorem run_without_from:
  assumes "imageID b = ''''"
  shows "run C L commit args b =
           (Returns (Some (MString ''`from` must precede any `run` statements''), None), b)"
  using assms by (simp add: run_def)

theorem run_without_from_witness:
  "imageID (demoVerbBuilder\<lparr>imageID := ''''\<rparr>) = ''''
   \<and> run demoClient demoLib (demoCommit False) [MString ''true'']
        (demoVerbBuilder\<lparr>imageID := ''''\<rparr>) =
       (Returns (Some (MString ''`from` must precede any `run` statements''), None),
        demoVerbBuilder\<lparr>imageID := ''''\<rparr>)
   \<and> client (snd (run demoClient demoLib (demoCommit False) [MString ''true'']
        (demoVerbBuilder\<lparr>imageID := ''''\<rparr>))) = []"
  using run_without_from [of "demoVerbBuilder\<lparr>imageID := ''''\<rparr>" demoClient demoLib
      "demoCommit False" "[MString ''true'']"]
  by (simp add: demoVerbBuilder_def)

text \<open>
  C4: after any call of \<^verbatim>\<open>run\<close>, whether it returned early, the commit succeeded or
  the commit failed, the configuration's entrypoint, command and working directory are
  what they were before the call. When an image has been selected, the commit runs on a
  builder whose entrypoint is \<^verbatim>\<open>["/bin/sh", "-c"]\<close>, whose command is the rendered
  arguments and whose working directory is the directory override when that is not
  empty.
\<close>

theorem run_restores_config:
  "Entrypoint (vconfig (snd (run C L commit args b))) = Entrypoint (vconfig b)
   \<and> Cmd (vconfig (snd (run C L commit args b))) = Cmd (vconfig b)
   \<and> WorkingDir (vconfig (snd (run C L commit args b))) = WorkingDir (vconfig b)
   \<and> (imageID b \<noteq> '''' \<longrightarrow>
        (\<exists>b_in.
           Entrypoint (vconfig b_in) = [''/bin/sh'', ''-c'']
           \<and> Cmd (vconfig b_in) = map (String L) args
           \<and> WorkingDir (vconfig b_in) =
               (if insideDir b \<noteq> '''' then insideDir b else WorkingDir (vconfig b))
           \<and> snd (run C L commit args b) =
               (snd (commit (Some (runHook C L)) b_in))
                 \<lparr>vconfig := (vconfig (snd (commit (Some (runHook C L)) b_in)))
                    \<lparr>Entrypoint := Entrypoint (vconfig b), Cmd := Cmd (vconfig b),
                     WorkingDir := WorkingDir (vconfig b)\<rparr>\<rparr>))"
proof -
  let ?b1 = "b\<lparr>vconfig := (vconfig b)\<lparr>Entrypoint := [''/bin/sh'', ''-c''],
                                        Cmd := map (String L) args\<rparr>\<rparr>"
  let ?b2 = "if insideDir ?b1 \<noteq> ''''
             then ?b1\<lparr>vconfig := (vconfig ?b1)\<lparr>WorkingDir := insideDir ?b1\<rparr>\<rparr> else ?b1"
  have fields: "Entrypoint (vconfig (snd (run C L commit args b))) = Entrypoint (vconfig b)"
    "Cmd (vconfig (snd (run C L commit args b))) = Cmd (vconfig b)"
    "WorkingDir (vconfig (snd (run C L commit args b))) = WorkingDir (vconfig b)"
    by (simp_all add: run_def Let_def split: prod.splits option.splits)
  have during: "\<exists>b_in.
           Entrypoint (vconfig b_in) = [''/bin/sh'', ''-c'']
           \<and> Cmd (vconfig b_in) = map (String L) args
           \<and> WorkingDir (vconfig b_in) =
               (if insideDir b \<noteq> '''' then insideDir b else WorkingDir (vconfig b))
           \<and> snd (run C L commit args b) =
               (snd (commit (Some (runHook C L)) b_in))
                 \<lparr>vconfig := (vconfig (snd (commit (Some (runHook C L)) b_in)))
                    \<lparr>Entrypoint := Entrypoint (vconfig b), Cmd := Cmd (vconfig b),
                     WorkingDir := WorkingDir (vconfig b)\<rparr>\<rparr>" if "imageID b \<noteq> ''''"
    using that
    by (intro exI [of _ ?b2]) (simp add: run_def Let_def split: prod.splits option.splits)
  from fields during show ?thesis by blast
qed

theorem run_restores_config_witness:
  "imageID demoVerbBuilder \<noteq> ''''
   \<and> snd (run demoClient demoLib (demoCommit True) [MString ''make'']
        (demoVerbBuilder\<lparr>insideDir := ''/work''\<rparr>)) =
       demoVerbBuilder\<lparr>insideDir := ''/work'', client := [''commit'']\<rparr>
   \<and> Entrypoint (vconfig (snd (run demoClient demoLib (demoCommit True) [MString ''make'']
        (demoVerbBuilder\<lparr>insideDir := ''/work''\<rparr>)))) = [''/init'']
   \<and> Cmd (vconfig (snd (run demoClient demoLib (demoCommit True) [MString ''make'']
        (demoVerbBuilder\<lparr>insideDir := ''/work''\<rparr>)))) = [''serve'']
   \<and> WorkingDir (vconfig (snd (run demoClient demoLib (demoCommit True) [MString ''make'']
        (demoVerbBuilder\<lparr>insideDir := ''/work''\<rparr>)))) = ''/srv''"
  using run_restores_config [of demoClient demoLib "demoCommit True" "[MString ''make'']"
      "demoVerbBuilder\<lparr>insideDir := ''/work''\<rparr>"]
  by (simp add: demoVerbBuilder_def run_def demoCommit_def Let_def)



text \<open>
  C3, as the code has it: \<^verbatim>\<open>from\<close> records the rendered reference as the image
  reference before it asks for the pull, so after any call with an argument the image
  reference is the requested one, whether or not the pull succeeded. A failure of the
  pull, or of reading its progress stream, is returned as an exception; a successful
  pull returns the first argument.
\<close>

theorem from_sets_reference_first:
  assumes "args \<noteq> []"
  shows "imageID (snd (from C L args b)) = String L (args ! 0)
         \<and> (\<forall>rd err c'. ImagePull C (String L (args ! 0)) (client b) = ((rd, Some err), c') \<longrightarrow>
              fst (from C L args b) = Returns (None, Some (createException err)))
         \<and> (\<forall>rd c' err out. ImagePull C (String L (args ! 0)) (client b) = ((rd, None), c') \<longrightarrow>
              pullProgress L rd (vstdout b) = (Some err, out) \<longrightarrow>
              fst (from C L args b) = Returns (None, Some (createException err)))
         \<and> (\<forall>rd c' out. ImagePull C (String L (args ! 0)) (client b) = ((rd, None), c') \<longrightarrow>
              pullProgress L rd (vstdout b) = (None, out) \<longrightarrow>
              fst (from C L args b) = Returns (Some (args ! 0), None))"
  using assms
  by (simp add: from_def index_def Let_def split: prod.splits option.splits)

theorem from_sets_reference_first_witness:
  "[MString ''alpine''] \<noteq> []
   \<and> ImagePull failingClient (String demoLib ([MString ''alpine''] ! 0)) (client demoVerbBuilder) =
       ((\<lparr>rdData = [], rdEnd = EOF\<rparr>, Some ''pull failed''), [''pull alpine''])
   \<and> fst (from failingClient demoLib [MString ''alpine''] demoVerbBuilder) =
       Returns (None, Some (createException ''pull failed''))
   \<and> imageID (snd (from failingClient demoLib [MString ''alpine''] demoVerbBuilder)) = ''alpine''
   \<and> ImagePull brokenStreamClient (String demoLib ([MString ''alpine''] ! 0))
        (client demoVerbBuilder) =
       ((\<lparr>rdData = [], rdEnd = IOError ''connection reset''\<rparr>, None), [''pull alpine''])
   \<and> pullProgress demoLib \<lparr>rdData = [], rdEnd = IOError ''connection reset''\<rparr>
        (vstdout demoVerbBuilder) = (Some ''connection reset'', [])
   \<and> from brokenStreamClient demoLib [MString ''alpine''] demoVerbBuilder =
       (Returns (None, Some (createException ''connection reset'')),
        demoVerbBuilder\<lparr>imageID := ''alpine'', client := [''pull alpine''],
          vconfig := (vconfig demoVerbBuilder)\<lparr>Tty := True, AttachStdout := True,
                                                 AttachStderr := True\<rparr>\<rparr>)
   \<and> ImagePull demoClient (String demoLib ([MString ''alpine''] ! 0)) (client demoVerbBuilder) =
       ((\<lparr>rdData = ''{}'' @ newline, rdEnd = EOF\<rparr>, None), [''pull alpine''])
   \<and> fst (from demoClient demoLib [MString ''alpine''] demoVerbBuilder) =
       Returns (Some (MString ''alpine''), None)
   \<and> imageID (snd (from demoClient demoLib [MString ''alpine''] demoVerbBuilder)) = ''alpine''"
proof -
  have broken: "pullProgress demoLib \<lparr>rdData = [], rdEnd = IOError ''connection reset''\<rparr> []
                  = (Some ''connection reset'', [])"
    by (subst pullProgress.simps) (simp add: ReadBytes_def)
  have one: "pullProgress demoLib \<lparr>rdData = ''{}'' @ newline, rdEnd = EOF\<rparr> []
               = (None, ['' '' @ '' '' @ carriage_return])"
    apply (subst pullProgress.simps)
    apply (simp add: ReadBytes_def newline_def)
    apply (subst pullProgress.simps)
    apply (simp add: ReadBytes_def demoLib_def)
    done
  from broken one
    from_sets_reference_first [of "[MString ''alpine'']" failingClient demoLib demoVerbBuilder]
    from_sets_reference_first [of "[MString ''alpine'']" brokenStreamClient demoLib
      demoVerbBuilder]
    from_sets_reference_first [of "[MString ''alpine'']" demoClient demoLib demoVerbBuilder]
  show ?thesis
    by (simp add: from_def index_def failingClient_def brokenStreamClient_def demoClient_def
        demoLib_def demoVerbBuilder_def Let_def)
qed

text \<open>
  C3 as stated fails: with a builder whose image reference is \<open>busybox\<close> and a runtime
  that fails the pull, \<^verbatim>\<open>from "alpine"\<close> returns the exception and leaves the image
  reference at \<open>alpine\<close>, not at its value from before the call.
\<close>

theorem from_failed_pull_counterexample:
  "fst (from failingClient demoLib [MString ''alpine''] demoVerbBuilder) =
     Returns (None, Some (MException ''pull failed''))
   \<and> imageID demoVerbBuilder = ''busybox''
   \<and> imageID (snd (from failingClient demoLib [MString ''alpine''] demoVerbBuilder)) = ''alpine''
   \<and> imageID (snd (from failingClient demoLib [MString ''alpine''] demoVerbBuilder))
       \<noteq> imageID demoVerbBuilder"
  by (simp add: from_def index_def failingClient_def demoClient_def demoLib_def
      demoVerbBuilder_def createException_def Let_def)

lemma pullProgress_one_line:
  "pullProgress L \<lparr>rdData = ''{}'' @ newline, rdEnd = EOF\<rparr> out =
     (None, out @ [Unmarshal L (''{}'' @ newline) ''id'' @ '' ''
                   @ Unmarshal L (''{}'' @ newline) ''status'' @ '' ''
                   @ Unmarshal L (''{}'' @ newline) ''progress'' @ carriage_return])"
  apply (subst pullProgress.simps)
  apply (simp add: ReadBytes_def newline_def)
  apply (subst pullProgress.simps)
  apply (simp add: ReadBytes_def)
  done

text \<open>
  Every call of \<^verbatim>\<open>from\<close> with an argument passes through one pull request, made on
  the runtime as the call finds it; nothing else in the verb reads or writes state that
  another builder can see.
\<close>

lemma from_always_pulls:
  "client (snd (from C L (a # rest) b)) = snd (ImagePull C (String L a) (client b))"
  by (simp add: from_def index_def Let_def split: prod.splits option.splits)

text \<open>
  C8: \<^verbatim>\<open>from\<close> takes no pull registry and asks the runtime for a pull on every
  call. Two builders that share the runtime, with no pull in flight, and each evaluate
  \<^verbatim>\<open>from "alpine"\<close> leave two pull requests for \<open>alpine\<close> in the runtime's log:
  the second builder's request reaches the runtime that has already received the first.
\<close>

theorem from_pulls_every_time:
  "client (snd (from demoClient demoLib [MString ''alpine'']
     ((demoVerbBuilder\<lparr>imageID := ''''\<rparr>)
        \<lparr>client := client (snd (from demoClient demoLib [MString ''alpine'']
                     (demoVerbBuilder\<lparr>imageID := ''''\<rparr>)))\<rparr>))) =
     [''pull alpine'', ''pull alpine'']"
  by (simp add: from_def index_def demoClient_def demoLib_def demoVerbBuilder_def Let_def
      pullProgress_one_line [simplified])

text \<open>
  C10: \<^verbatim>\<open>env\<close> is registered with the specification \<^verbatim>\<open>ArgsAny\<close>, which admits a
  call without arguments; on an empty argument list the handler panics with an index
  out of range, before it touches the builder. It returns (a value or an exception)
  exactly when there is a first argument and that argument is a hash.
\<close>

theorem env_needs_hash_argument:
  "map_of jumpTable ''env'' = Some (Fenv, ArgsAny)
   \<and> env L commit [] b = (Panics index_panic, b)
   \<and> ((\<exists>r b'. env L commit args b = (Returns r, b'))
        \<longleftrightarrow> (\<exists>kvs rest. args = MHash kvs # rest))"
proof -
  have tab: "map_of jumpTable ''env'' = Some (Fenv, ArgsAny)"
    by (simp add: jumpTable_def)
  have empty: "env L commit [] b = (Panics index_panic, b)"
    by (simp add: env_def index_def)
  have total: "\<exists>r b'. env L commit (MHash kvs # rest) b = (Returns r, b')" for kvs rest
    by (simp add: env_def index_def Hash_def hash_Keys_def split: prod.splits option.splits)
  have only: "\<exists>kvs rest. args = MHash kvs # rest" if "env L commit args b = (Returns r, b')" for r b'
  proof (cases args)
    case Nil
    with that empty show ?thesis by simp
  next
    case (Cons a rest)
    with that show ?thesis
      by (cases a) (simp_all add: env_def index_def Hash_def)
  qed
  have "(\<exists>r b'. env L commit args b = (Returns r, b'))
          \<longleftrightarrow> (\<exists>kvs rest. args = MHash kvs # rest)"
  proof
    assume "\<exists>r b'. env L commit args b = (Returns r, b')"
    then obtain r b' where "env L commit args b = (Returns r, b')" by auto
    then show "\<exists>kvs rest. args = MHash kvs # rest" by (rule only)
  next
    assume "\<exists>kvs rest. args = MHash kvs # rest"
    then obtain kvs rest where "args = MHash kvs # rest" by auto
    with total [of kvs rest] show "\<exists>r b'. env L commit args b = (Returns r, b')" by simp
  qed
  with tab empty show ?thesis by simp
qed

theorem env_needs_hash_argument_witness:
  "env demoLib (demoCommit False) [] demoVerbBuilder = (Panics index_panic, demoVerbBuilder)
   \<and> env demoLib (demoCommit False) [MHash [(MString ''A'', MString ''1'')]] demoVerbBuilder =
       (Returns (None, None),
        demoVerbBuilder\<lparr>client := [''commit''],
          vconfig := (vconfig demoVerbBuilder)\<lparr>Env := [''A=1''], Cmd := [],
                                                 WorkingDir := ''/tmp''\<rparr>\<rparr>)
   \<and> (\<exists>kvs rest. [MHash [(MString ''A'', MString ''1'')]] = MHash kvs # rest)"
  using env_needs_hash_argument [of demoLib "demoCommit False" demoVerbBuilder
      "[MHash [(MString ''A'', MString ''1'')]]"]
  by (simp add: env_def index_def Hash_def hash_Keys_def hash_Get_def array_Get_def
      envLoop.simps [of _ _ _ 0] envLoop.simps [of _ _ _ "Suc 0"]
      demoLib_def demoCommit_def demoVerbBuilder_def)

section \<open>Properties of the run operations\<close>

lemma result_LoadString:
  "keeps_result M \<Longrightarrow> LoadString M s b = (r, b1) \<Longrightarrow> result b1 = result b"
  unfolding keeps_result_def by (metis snd_conv)

lemma result_Yield:
  "keeps_result M \<Longrightarrow> Yield M f b = (r, b1) \<Longrightarrow> result b1 = result b"
  unfolding keeps_result_def by (metis snd_conv)

lemma Runner_LoadString:
  "keeps_Runner M \<Longrightarrow> LoadString M s b = (r, b1) \<Longrightarrow>
     Runner (config b1) = Runner (config b)"
  unfolding keeps_Runner_def by (metis snd_conv)

lemma Runner_Yield:
  "keeps_Runner M \<Longrightarrow> Yield M f b = (r, b1) \<Longrightarrow> Runner (config b1) = Runner (config b)"
  unfolding keeps_Runner_def by (metis snd_conv)

lemma Runner_RunWithContext:
  "keeps_Runner M \<Longrightarrow> RunWithContext M v k b = (r, b1) \<Longrightarrow>
     Runner (config b1) = Runner (config b)"
  unfolding keeps_Runner_def by (metis snd_conv)

lemma RunScript_protocol:
  assumes frame: "keeps_result M"
    and ok: "LoadString M script
               (b0\<lparr>result := \<lparr>ResFileName = FileName (config b0), Value = None, Err = None\<rparr>\<rparr>)
             = (None, b1)"
  shows "RunScript M E script b0 =
           spec_result (FileName (config b0)) (spec_post_evaluation M E b1)"
proof -
  from result_LoadString [OF frame ok]
  have r1: "result b1 = \<lparr>ResFileName = FileName (config b0), Value = None, Err = None\<rparr>"
    by simp
  show ?thesis
  proof (cases "MakeImage E (exec b1)")
    case (Pair merr e2)
    show ?thesis
    proof (cases merr)
      case (Some err)
      with Pair ok r1 show ?thesis
        by (simp add: RunScript_def spec_post_evaluation_def spec_result_def setErr_def
            Builder_FileName_def Let_def)
    next
      case None
      show ?thesis
      proof (cases "afterFunc b1")
        case noHook: None
        with None Pair ok r1 show ?thesis
          by (simp add: RunScript_def spec_post_evaluation_def spec_result_def
              setImageValue_def Builder_ImageID_def Builder_FileName_def Let_def)
      next
        case (Some f)
        obtain yerr b3 where y: "Yield M (Some f) (b1\<lparr>exec := e2\<rparr>) = (yerr, b3)"
          by (cases "Yield M (Some f) (b1\<lparr>exec := e2\<rparr>)")
        from result_Yield [OF frame y] r1
        have r3: "result b3 = \<lparr>ResFileName = FileName (config b0), Value = None, Err = None\<rparr>"
          by simp
        from Some None Pair ok y r3 show ?thesis
          by (cases yerr)
            (simp_all add: RunScript_def spec_post_evaluation_def spec_result_def setErr_def
              setImageValue_def Builder_ImageID_def Builder_FileName_def Let_def)
      qed
    qed
  qed
qed

lemma RunCode_protocol:
  assumes frame: "keeps_result M"
    and ok: "RunWithContext M val stackKeep b0 = ((keep, None, None), b1)"
    and hook: "afterFunc b1 \<noteq> None"
  shows "RunCode M E val stackKeep b0 =
           (case spec_result (FileName (config b1))
                   (spec_post_evaluation M E
                      (b1\<lparr>result := \<lparr>ResFileName = FileName (config b1), Value = None,
                                       Err = None\<rparr>\<rparr>)) of
              (r, b') \<Rightarrow> ((r, keep), b'))"
proof -
  let ?b1 = "b1\<lparr>result := \<lparr>ResFileName = FileName (config b1), Value = None, Err = None\<rparr>\<rparr>"
  from hook obtain f where f: "afterFunc b1 = Some f" by auto
  show ?thesis
  proof (cases "MakeImage E (exec b1)")
    case (Pair merr e2)
    show ?thesis
    proof (cases merr)
      case (Some err)
      with Pair ok show ?thesis
        by (simp add: RunCode_def spec_post_evaluation_def spec_result_def
            Builder_FileName_def Let_def)
    next
      case None
      obtain yerr b3 where y: "Yield M (Some f) (?b1\<lparr>exec := e2\<rparr>) = (yerr, b3)"
        by (cases "Yield M (Some f) (?b1\<lparr>exec := e2\<rparr>)")
      from result_Yield [OF frame y]
      have r3: "result b3 = \<lparr>ResFileName = FileName (config b1), Value = None, Err = None\<rparr>"
        by simp
      from None Pair ok f y r3 show ?thesis
        by (cases yerr)
          (simp_all add: RunCode_def spec_post_evaluation_def spec_result_def setErr_def
            setImageValue_def Builder_ImageID_def Builder_FileName_def Let_def)
    qed
  qed
qed

lemma RunScript_Runner:
  assumes frame: "keeps_Runner M"
  shows "Runner (config (snd (RunScript M E script b))) = Runner (config b)"
proof -
  let ?b = "b\<lparr>result := \<lparr>ResFileName = Builder_FileName b, Value = None, Err = None\<rparr>\<rparr>"
  obtain lerr b1 where l: "LoadString M script ?b = (lerr, b1)"
    by (cases "LoadString M script ?b")
  from Runner_LoadString [OF frame l] have c1: "Runner (config b1) = Runner (config b)" by simp
  obtain merr e2 where m: "MakeImage E (exec b1) = (merr, e2)"
    by (cases "MakeImage E (exec b1)")
  show ?thesis
  proof (cases lerr)
    case (Some err)
    with l c1 show ?thesis by (simp add: RunScript_def setErr_def Let_def)
  next
    case None
    show ?thesis
    proof (cases merr)
      case (Some err)
      with None l m c1 show ?thesis by (simp add: RunScript_def setErr_def Let_def)
    next
      case noErr: None
      show ?thesis
      proof (cases "afterFunc b1")
        case None
        with noErr \<open>lerr = None\<close> l m c1 show ?thesis
          by (simp add: RunScript_def setImageValue_def Let_def)
      next
        case (Some f)
        obtain yerr b3 where y: "Yield M (Some f) (b1\<lparr>exec := e2\<rparr>) = (yerr, b3)"
          by (cases "Yield M (Some f) (b1\<lparr>exec := e2\<rparr>)")
        from Runner_Yield [OF frame y] c1 have c3: "Runner (config b3) = Runner (config b)"
          by simp
        from Some noErr \<open>lerr = None\<close> l m y c3 show ?thesis
          by (cases yerr) (simp_all add: RunScript_def setErr_def setImageValue_def Let_def)
      qed
    qed
  qed
qed

lemma RunCode_Runner:
  assumes frame: "keeps_Runner M"
  shows "Runner (config (snd (RunCode M E val stackKeep b))) = Runner (config b)"
proof -
  obtain keep res err b1 where r: "RunWithContext M val stackKeep b = ((keep, res, err), b1)"
    by (cases "RunWithContext M val stackKeep b") auto
  from Runner_RunWithContext [OF frame r] have c1: "Runner (config b1) = Runner (config b)"
    by simp
  let ?b1 = "b1\<lparr>result := \<lparr>ResFileName = Builder_FileName b1, Value = res, Err = err\<rparr>\<rparr>"
  obtain merr e2 where m: "MakeImage E (exec b1) = (merr, e2)"
    by (cases "MakeImage E (exec b1)")
  obtain yerr b3 where y: "Yield M (afterFunc b1) (?b1\<lparr>exec := e2\<rparr>) = (yerr, b3)"
    by (cases "Yield M (afterFunc b1) (?b1\<lparr>exec := e2\<rparr>)")
  from Runner_Yield [OF frame y] c1 have c3: "Runner (config b3) = Runner (config b)"
    by simp
  from r m y c1 c3 show ?thesis
    by (cases err; cases res; cases merr; cases yerr)
      (simp_all add: RunCode_def setErr_def setImageValue_def Let_def)
qed

lemma Run_RunScript:
  assumes frame: "keeps_Runner M"
    and rd: "readFile (FileName (config b)) = Inr script"
  shows "Run M E readFile b =
           (case close_chan (Runner (config b)) of
              Inl p \<Rightarrow> (Panics p, snd (RunScript M E script b))
            | Inr c \<Rightarrow>
                (Returns (fst (RunScript M E script b)),
                 (snd (RunScript M E script b))
                   \<lparr>config := (config (snd (RunScript M E script b)))\<lparr>Runner := c\<rparr>\<rparr>))"
proof (cases "RunScript M E script b")
  case (Pair r b1)
  with RunScript_Runner [OF frame, of E script b]
  have "Runner (config b1) = Runner (config b)" by simp
  with Pair rd show ?thesis
    by (cases "close_chan (Runner (config b))") (simp_all add: Run_def)
qed

lemma Run_read_error:
  assumes rd: "readFile (FileName (config b)) = Inl err"
  shows "Run M E readFile b =
           (case close_chan (Runner (config b)) of
              Inl p \<Rightarrow> (Panics p, b)
            | Inr c \<Rightarrow>
                (Returns \<lparr>ResFileName = FileName (config b), Value = None, Err = Some err\<rparr>,
                 b\<lparr>config := (config b)\<lparr>Runner := c\<rparr>\<rparr>))"
  using rd by (simp add: Run_def Builder_FileName_def split: sum.splits)

text \<open>
  When the evaluation of a compiled unit succeeds with a value, \<^verbatim>\<open>RunCode\<close> records
  and returns that value and does nothing else: the builder is the one the evaluation
  left, with the result recorded, whatever the executor and the after hook are.
\<close>

lemma RunCode_value:
  assumes "RunWithContext M val stackKeep b0 = ((keep, Some v, None), b3)"
  shows "RunCode M E val stackKeep b0 =
           ((\<lparr>ResFileName = FileName (config b3), Value = Some v, Err = None\<rparr>, keep),
            b3\<lparr>result := \<lparr>ResFileName = FileName (config b3), Value = Some v,
                            Err = None\<rparr>\<rparr>)"
  using assms by (simp add: RunCode_def Builder_FileName_def Let_def)

text \<open>
  C6, as the code has it. Under an evaluator that keeps the recorded result and the
  completion channel: after a successful evaluation \<^verbatim>\<open>RunScript\<close> follows the
  specification's protocol (finalize; invoke the after hook if one is registered; set the
  value to the current image id; return the first error); \<^verbatim>\<open>Run\<close>, once it has read
  the script, returns what \<^verbatim>\<open>RunScript\<close> returns; and \<^verbatim>\<open>RunCode\<close> follows the
  protocol when the evaluation returned no value and an after hook is registered. When
  the evaluation returned a value, \<^verbatim>\<open>RunCode\<close> returns that value as the result's
  value, with no error, without finalizing and without invoking the after hook: the
  executor's state and the output are those the evaluation left.
\<close>

theorem post_evaluation_protocol:
  assumes "keeps_result M" and "keeps_Runner M"
  shows "(LoadString M script
            (b0\<lparr>result := \<lparr>ResFileName = FileName (config b0), Value = None, Err = None\<rparr>\<rparr>)
          = (None, b1) \<longrightarrow>
          RunScript M E script b0 =
            spec_result (FileName (config b0)) (spec_post_evaluation M E b1))
       \<and> (readFile (FileName (config b0)) = Inr script \<and> Runner (config b0) = ChanOpen \<longrightarrow>
          fst (Run M E readFile b0) = Returns (fst (RunScript M E script b0)))
       \<and> (RunWithContext M val stackKeep b0 = ((keep, None, None), b2)
          \<and> afterFunc b2 \<noteq> None \<longrightarrow>
          RunCode M E val stackKeep b0 =
            (case spec_result (FileName (config b2))
                    (spec_post_evaluation M E
                       (b2\<lparr>result := \<lparr>ResFileName = FileName (config b2), Value = None,
                                        Err = None\<rparr>\<rparr>)) of
               (r, b') \<Rightarrow> ((r, keep), b')))
       \<and> (RunWithContext M val stackKeep b0 = ((keep, Some v, None), b3) \<longrightarrow>
          RunCode M E val stackKeep b0 =
            ((\<lparr>ResFileName = FileName (config b3), Value = Some v, Err = None\<rparr>, keep),
             b3\<lparr>result := \<lparr>ResFileName = FileName (config b3), Value = Some v,
                             Err = None\<rparr>\<rparr>)
          \<and> exec (snd (RunCode M E val stackKeep b0)) = exec b3
          \<and> stdout (snd (RunCode M E val stackKeep b0)) = stdout b3)"
  using RunScript_protocol [OF assms(1), of script b0 b1 E]
    Run_RunScript [OF assms(2), of readFile b0 script E]
    RunCode_protocol [OF assms(1), of val stackKeep b0 keep b2 E]
    RunCode_value [of M val stackKeep b0 keep v b3 E]
  by (simp add: close_chan_def)

theorem post_evaluation_protocol_witness:
  "keeps_result demoMrb
   \<and> keeps_Runner demoMrb
   \<and> LoadString demoMrb ''from \"alpine\"''
        (demoBuilder\<lparr>afterFunc := Some (MProc 0),
           result := \<lparr>ResFileName = ''box.rb'', Value = None, Err = None\<rparr>\<rparr>)
      = (None, demoBuilder\<lparr>afterFunc := Some (MProc 0),
           result := \<lparr>ResFileName = ''box.rb'', Value = None, Err = None\<rparr>\<rparr>)
   \<and> fst (RunScript demoMrb demoExecutor ''from \"alpine\"''
        (demoBuilder\<lparr>afterFunc := Some (MProc 0)\<rparr>))
      = \<lparr>ResFileName = ''box.rb'', Value = Some (MString ''final''), Err = None\<rparr>
   \<and> stdout (snd (RunScript demoMrb demoExecutor ''from \"alpine\"''
        (demoBuilder\<lparr>afterFunc := Some (MProc 0)\<rparr>))) = [''after'']
   \<and> demoReadFile ''box.rb'' = Inr ''from \"alpine\"''
   \<and> fst (Run demoMrb demoExecutor demoReadFile (demoBuilder\<lparr>afterFunc := Some (MProc 0)\<rparr>))
      = Returns \<lparr>ResFileName = ''box.rb'', Value = Some (MString ''final''), Err = None\<rparr>
   \<and> RunWithContext demoMrb None 0 (demoBuilder\<lparr>afterFunc := Some (MProc 0)\<rparr>)
      = ((0, None, None), demoBuilder\<lparr>afterFunc := Some (MProc 0)\<rparr>)
   \<and> fst (RunCode demoMrb demoExecutor None 0 (demoBuilder\<lparr>afterFunc := Some (MProc 0)\<rparr>))
      = (\<lparr>ResFileName = ''box.rb'', Value = Some (MString ''final''), Err = None\<rparr>, 0)
   \<and> RunWithContext demoMrb (Some (MFixnum 7)) 0
        (demoBuilder\<lparr>afterFunc := Some (MProc 0)\<rparr>)
      = ((0, Some (MFixnum 7), None), demoBuilder\<lparr>afterFunc := Some (MProc 0)\<rparr>)
   \<and> RunCode demoMrb demoExecutor (Some (MFixnum 7)) 0
        (demoBuilder\<lparr>afterFunc := Some (MProc 0)\<rparr>)
      = ((\<lparr>ResFileName = ''box.rb'', Value = Some (MFixnum 7), Err = None\<rparr>, 0),
         demoBuilder\<lparr>afterFunc := Some (MProc 0),
           result := \<lparr>ResFileName = ''box.rb'', Value = Some (MFixnum 7), Err = None\<rparr>\<rparr>)
   \<and> exec (snd (RunCode demoMrb demoExecutor (Some (MFixnum 7)) 0
        (demoBuilder\<lparr>afterFunc := Some (MProc 0)\<rparr>))) = exec demoBuilder
   \<and> stdout (snd (RunCode demoMrb demoExecutor (Some (MFixnum 7)) 0
        (demoBuilder\<lparr>afterFunc := Some (MProc 0)\<rparr>))) = []"
proof -
  have res: "keeps_result demoMrb"
    by (simp add: keeps_result_def demoMrb_def)
  have run: "keeps_Runner demoMrb"
    by (simp add: keeps_Runner_def demoMrb_def)
  from res run post_evaluation_protocol [OF res run,
      of "''from \"alpine\"''" "demoBuilder\<lparr>afterFunc := Some (MProc 0)\<rparr>"
         "demoBuilder\<lparr>afterFunc := Some (MProc 0),
            result := \<lparr>ResFileName = ''box.rb'', Value = None, Err = None\<rparr>\<rparr>"
         demoExecutor demoReadFile None 0 0 "demoBuilder\<lparr>afterFunc := Some (MProc 0)\<rparr>"]
    post_evaluation_protocol [OF res run,
      where val = "Some (MFixnum 7)" and stackKeep = 0 and keep = 0 and v = "MFixnum 7"
        and ?b0.0 = "demoBuilder\<lparr>afterFunc := Some (MProc 0)\<rparr>"
        and ?b3.0 = "demoBuilder\<lparr>afterFunc := Some (MProc 0)\<rparr>"
        and E = demoExecutor]
  show ?thesis
    by (simp add: demoMrb_def demoBuilder_def demoExecutor_def demoReadFile_def
        spec_post_evaluation_def spec_result_def)
qed

text \<open>
  C6 as stated fails for \<^verbatim>\<open>RunCode\<close>: when the evaluation succeeds with a value, that
  value is returned, nothing is finalized and the result's value is not the image id.
  Moreover, with no after hook registered \<^verbatim>\<open>RunCode\<close> still yields to the (nil) hook,
  where \<^verbatim>\<open>RunScript\<close> does not.
\<close>

theorem RunCode_protocol_counterexample:
  "RunWithContext demoMrb (Some (MFixnum 7)) 0 demoBuilder = ((0, Some (MFixnum 7), None), demoBuilder)
   \<and> fst (RunCode demoMrb demoExecutor (Some (MFixnum 7)) 0 demoBuilder)
      = (\<lparr>ResFileName = ''box.rb'', Value = Some (MFixnum 7), Err = None\<rparr>, 0)
   \<and> Builder_ImageID demoExecutor (snd (RunCode demoMrb demoExecutor (Some (MFixnum 7)) 0 demoBuilder))
      = ''base''
   \<and> Value (fst (fst (RunCode demoMrb demoExecutor (Some (MFixnum 7)) 0 demoBuilder)))
      \<noteq> Some (MString (Builder_ImageID demoExecutor
            (snd (RunCode demoMrb demoExecutor (Some (MFixnum 7)) 0 demoBuilder))))
   \<and> afterFunc demoBuilder = None
   \<and> stdout (snd (RunCode demoMrb demoExecutor None 0 demoBuilder)) = [''after'']
   \<and> stdout (snd (RunScript demoMrb demoExecutor ''from \"alpine\"'' demoBuilder)) = []"
  by (simp add: RunCode_def RunScript_def demoMrb_def demoBuilder_def demoExecutor_def
      Builder_ImageID_def Builder_FileName_def setImageValue_def setErr_def Let_def)

text \<open>
  C9: under an evaluator that keeps the completion channel,
  \<^verbatim>\<open>RunScript\<close> and \<^verbatim>\<open>RunCode\<close> leave the completion channel as it was,
  and \<^verbatim>\<open>Run\<close> applies one close to it, whether reading the script file failed, the
  script failed or it succeeded: from an open channel \<^verbatim>\<open>Run\<close> returns with the
  channel closed (a second close would have panicked).
\<close>

theorem Run_closes_Runner:
  assumes "keeps_Runner M"
  shows "Runner (config (snd (RunScript M E script b))) = Runner (config b)
       \<and> Runner (config (snd (RunCode M E val stackKeep b))) = Runner (config b)
       \<and> Runner (config (snd (Run M E readFile b))) =
           (case close_chan (Runner (config b)) of Inl p \<Rightarrow> Runner (config b) | Inr c \<Rightarrow> c)
       \<and> (Runner (config b) = ChanOpen \<longrightarrow>
            (\<exists>res b'. Run M E readFile b = (Returns res, b') \<and> Runner (config b') = ChanClosed))"
proof (cases "readFile (FileName (config b))")
  case (Inl err)
  from Run_read_error [of readFile b err M E] Inl RunScript_Runner [OF assms, of E script b]
    RunCode_Runner [OF assms, of E val stackKeep b]
  show ?thesis by (simp add: close_chan_def split: chan.splits)
next
  case (Inr s)
  from Run_RunScript [of M readFile b s E] assms Inr RunScript_Runner [OF assms, of E script b]
    RunScript_Runner [OF assms, of E s b]
    RunCode_Runner [OF assms, of E val stackKeep b]
  show ?thesis by (simp add: close_chan_def split: chan.splits)
qed

theorem Run_closes_Runner_witness:
  "keeps_Runner demoMrb
   \<and> Runner (config demoBuilder) = ChanOpen
   \<and> Runner (config (snd (Run demoMrb demoExecutor demoReadFile demoBuilder))) = ChanClosed
   \<and> demoReadFile ''missing.rb'' = Inl ''no such file''
   \<and> Run demoMrb demoExecutor demoReadFile
        (demoBuilder\<lparr>config := (config demoBuilder)\<lparr>FileName := ''missing.rb''\<rparr>\<rparr>)
      = (Returns \<lparr>ResFileName = ''missing.rb'', Value = None, Err = Some ''no such file''\<rparr>,
         demoBuilder\<lparr>config := (config demoBuilder)\<lparr>FileName := ''missing.rb'',
                                                       Runner := ChanClosed\<rparr>\<rparr>)
   \<and> Runner (config (snd (RunScript demoMrb demoExecutor ''from \"alpine\"'' demoBuilder)))
      = ChanOpen
   \<and> Runner (config (snd (RunCode demoMrb demoExecutor None 0 demoBuilder))) = ChanOpen"
proof -
  have frame: "keeps_Runner demoMrb"
    by (simp add: keeps_Runner_def demoMrb_def)
  from frame Run_closes_Runner [OF frame, of demoExecutor "''from \"alpine\"''" demoBuilder None 0
      demoReadFile]
    Run_closes_Runner [OF frame, of demoExecutor "''from \"alpine\"''"
      "demoBuilder\<lparr>config := (config demoBuilder)\<lparr>FileName := ''missing.rb''\<rparr>\<rparr>" None 0
      demoReadFile]
  show ?thesis
    by (simp add: demoBuilder_def demoReadFile_def Run_def close_chan_def Builder_FileName_def)
qed

end
